theory Spec2Isabelle
  imports Main
begin

section \<open>Data model\<close>

text \<open>
  The prediction game keeps three collections: offers (one per UTC day, each a list of
  token pairs), portfolios (a user's selection for one offer) and users (with a point
  balance). Identifiers are the string form of the store's object ids; tokens are
  strings; a day is an integer day index. JavaScript numbers that carry points, prices
  and percentages are kept as a type parameter \<open>'n\<close> of which only \<open>0\<close> and \<open>+\<close>
  are used, exactly as the source uses them.
\<close>

datatype OfferStatus = WaitingForPricing | WaitingForCompletion | Completed

record TokenOffer =
  firstToken :: string
  secondToken :: string

text \<open>
  An offer document. \<open>pricingChanges\<close> is the object keyed by token that
  \<open>syncOffersPrices\<close> writes; a key with no numeric value is \<open>None\<close>. The display
  field \<open>date\<close> is read by none of the operations below and is left out of the document.
\<close>

record 'n PortfolioOffer =
  offer_id :: string
  day :: int
  tokenOffers :: "TokenOffer list"
  offerStatus :: OfferStatus
  pricingChanges :: "string \<rightharpoonup> 'n"

text \<open>
  Modelled from the spec: the portfolio entity \<open>MongoPortfolioEntity\<close> is not among
  the source files. Its getters \<open>getId\<close>, \<open>getUserId\<close>, \<open>getOfferId\<close> and
  \<open>getSelectedTokens\<close> are the fields of the spec's Portfolio (\<open>id\<close>, \<open>user\<close>,
  \<open>offer\<close>, \<open>selectedTokens\<close>), read here from the document; \<open>getId\<close> of an
  offer is \<open>offer_id\<close>, the string form of its \<open>_id\<close>.
\<close>

record 'n Portfolio =
  portfolio_id :: string
  user :: string
  selectedTokens :: "string list"
  offer :: string
  isAwarded :: bool
  earnedPoints :: "'n option"

record 'n User =
  fid :: int
  balance :: 'n
  userName :: string
  imageUrl :: string

text \<open>
  Exceptions of the source are values: \<open>BadRequestException\<close> is the client-fault
  rejection, \<open>Error\<close> the plain \<open>throw new Error\<close>, \<open>TypeError\<close> what reading a
  property of \<open>null\<close> or \<open>undefined\<close>, or calling a method that an object does not
  have, raises, and \<open>BSONError\<close> what \<open>new ObjectId\<close> raises on a string that is no
  object id.
\<close>

datatype error = BadRequestException string | Error string | TypeError | BSONError

text \<open>The lines the scheduled jobs write to the logger, argument by argument.\<close>

datatype log_entry =
    LogOfferCompleted string nat
  | LogAwardFailed string error
  | LogPricesUpdateFailed error
  | LogPricesUpdated string

record 'n state =
  offers :: "'n PortfolioOffer list"
  portfolios :: "'n Portfolio list"
  users :: "string \<rightharpoonup> 'n User"
  logs :: "log_entry list"

section \<open>Object ids\<close>

text \<open>
  The portfolio repository turns every identifier it is given into an object id with
  \<open>new ObjectId(id)\<close>, which raises the driver's \<open>BSONError\<close> on a string that is no
  object id. Which strings the driver accepts is not in the source files, so the
  constructor is a parameter \<open>ObjectId\<close> of the operations that call it:
  \<open>ObjectId s = Some k\<close> when \<open>s\<close> denotes the object id whose string form
  (\<open>toString\<close>) is \<open>k\<close>, and \<open>ObjectId s = None\<close> when the constructor raises.
  Documents hold identifiers in that string form, so that two strings denote the same
  object id exactly when \<open>ObjectId\<close> gives the same result for them.

  \<open>hexObjectId\<close> is the instance used in the examples: it accepts the strings of 24
  lower-case hexadecimal digits, and each of them is its own string form.
\<close>

definition hexObjectId :: "string \<Rightarrow> string option" where
  "hexObjectId s =
     (if length s = 24 \<and> list_all (\<lambda>c. c \<in> set ''0123456789abcdef'') s then Some s else None)"

section \<open>Portfolio repository\<close>

record FindPortfolioEntitiesParams =
  f_userId :: "string option"
  f_offerIds :: "string list option"
  f_isAwarded :: "bool option"

text \<open>
  \<open>MongoPortfolioRepository.find\<close>: each of the three filters applies only when its
  parameter is given. The user identifier and then every offer identifier, in order, are
  turned into object ids while the filter is built: the first that is none raises, and no
  query is made. An empty \<open>offerIds\<close> array is given (it is truthy), and then matches
  no document.
\<close>

definition portfolioRepository_find ::
  "(string \<Rightarrow> string option) \<Rightarrow> FindPortfolioEntitiesParams \<Rightarrow> 'n Portfolio list
     \<Rightarrow> error + 'n Portfolio list" where
  "portfolioRepository_find ObjectId params ps =
     (case (case f_userId params of
              None \<Rightarrow> Some None
            | Some userId \<Rightarrow> map_option Some (ObjectId userId)) of
        None \<Rightarrow> Inl BSONError
      | Some userFilter \<Rightarrow>
     (case (case f_offerIds params of
              None \<Rightarrow> Some None
            | Some offerIds \<Rightarrow> map_option Some (those (map ObjectId offerIds))) of
        None \<Rightarrow> Inl BSONError
      | Some offerFilter \<Rightarrow>
          Inr (filter (\<lambda>p.
                 (case userFilter of None \<Rightarrow> True | Some u \<Rightarrow> user p = u) \<and>
                 (case offerFilter of None \<Rightarrow> True | Some ids \<Rightarrow> offer p \<in> set ids) \<and>
                 (case f_isAwarded params of None \<Rightarrow> True | Some a \<Rightarrow> isAwarded p = a)) ps)))"

text \<open>
  \<open>existsByUserIdAndOfferId\<close>: both identifiers become object ids, the user's first.
\<close>

definition existsByUserIdAndOfferId ::
  "(string \<Rightarrow> string option) \<Rightarrow> string \<Rightarrow> string \<Rightarrow> 'n Portfolio list \<Rightarrow> error + bool" where
  "existsByUserIdAndOfferId ObjectId userId offerId ps =
     (case ObjectId userId of
        None \<Rightarrow> Inl BSONError
      | Some u \<Rightarrow>
     (case ObjectId offerId of
        None \<Rightarrow> Inl BSONError
      | Some k \<Rightarrow> Inr (list_ex (\<lambda>p. user p = u \<and> offer p = k) ps)))"

text \<open>
  \<open>create\<close> stores a new document; \<open>newId\<close> is the identifier the store assigns
  to it. \<open>earnedPoints\<close> is not among the creation parameters and stays unset.
\<close>

definition portfolioRepository_create ::
  "string \<Rightarrow> string \<Rightarrow> string list \<Rightarrow> string \<Rightarrow> bool \<Rightarrow> 'n Portfolio list
     \<Rightarrow> 'n Portfolio \<times> 'n Portfolio list" where
  "portfolioRepository_create newId userId selected offerId awarded ps =
     (let doc = \<lparr>portfolio_id = newId, user = userId, selectedTokens = selected,
                   offer = offerId, isAwarded = awarded, earnedPoints = None\<rparr>
      in (doc, ps @ [doc]))"

text \<open>
  \<open>findOneAndUpdate\<close> on the identifier: the first document with that identifier gets
  the two fields, no document is a silent no-op. \<open>updateOneById\<close> makes the object id
  of its argument first.
\<close>

fun findOneAndUpdate ::
  "string \<Rightarrow> bool \<Rightarrow> 'n \<Rightarrow> 'n Portfolio list \<Rightarrow> 'n Portfolio list" where
  "findOneAndUpdate k awarded points [] = []"
| "findOneAndUpdate k awarded points (p # ps) =
     (if portfolio_id p = k
      then p\<lparr>isAwarded := awarded, earnedPoints := Some points\<rparr> # ps
      else p # findOneAndUpdate k awarded points ps)"

definition portfolioRepository_updateOneById ::
  "(string \<Rightarrow> string option) \<Rightarrow> string \<Rightarrow> bool \<Rightarrow> 'n \<Rightarrow> 'n Portfolio list
     \<Rightarrow> error + 'n Portfolio list" where
  "portfolioRepository_updateOneById ObjectId pid awarded points ps =
     (case ObjectId pid of
        None \<Rightarrow> Inl BSONError
      | Some k \<Rightarrow> Inr (findOneAndUpdate k awarded points ps))"

section \<open>Offer store and user ledger\<close>

text \<open>
  Modelled from the spec: the offer repository (\<open>findById\<close>, \<open>findByOfferStatus\<close>,
  \<open>findLatest\<close>, \<open>updateOneById\<close>) is not among the source files. The spec's Offer
  Store is queryable by id, by status with an optional inclusive maximum day (``whose day
  is \<open>\<le>\<close> current UTC day''), and by latest (``the maximum existing offer day'').
\<close>

definition offerRepository_findById :: "string \<Rightarrow> 'n PortfolioOffer list \<Rightarrow> 'n PortfolioOffer option" where
  "offerRepository_findById oid os = find (\<lambda>x. offer_id x = oid) os"

definition findByOfferStatus ::
  "OfferStatus \<Rightarrow> int option \<Rightarrow> 'n PortfolioOffer list \<Rightarrow> 'n PortfolioOffer list" where
  "findByOfferStatus st maxDay os =
     filter (\<lambda>x. offerStatus x = st \<and> (case maxDay of None \<Rightarrow> True | Some d \<Rightarrow> day x \<le> d)) os"

fun findLatest :: "'n PortfolioOffer list \<Rightarrow> 'n PortfolioOffer option" where
  "findLatest [] = None"
| "findLatest (o1 # os) =
     (case findLatest os of
        None \<Rightarrow> Some o1
      | Some m \<Rightarrow> if day m \<le> day o1 then Some o1 else Some m)"

fun offerRepository_updateOneById ::
  "string \<Rightarrow> ('n PortfolioOffer \<Rightarrow> 'n PortfolioOffer) \<Rightarrow> 'n PortfolioOffer list
     \<Rightarrow> 'n PortfolioOffer list" where
  "offerRepository_updateOneById oid upd [] = []"
| "offerRepository_updateOneById oid upd (o1 # os) =
     (if offer_id o1 = oid then upd o1 # os
      else o1 # offerRepository_updateOneById oid upd os)"

text \<open>
  Modelled from the spec: the user service is not among the source files. The spec's
  User Ledger has \<open>getById(id)\<close> and \<open>creditPoints(id, amount)\<close>, an additive credit
  of the balance. The credit of a user that does not exist is taken to raise, which is
  the case in which the enclosing transaction matters.
\<close>

definition userService_getById :: "string \<Rightarrow> (string \<rightharpoonup> 'n User) \<Rightarrow> 'n User option" where
  "userService_getById userId us = us userId"

definition userService_update ::
  "string \<Rightarrow> 'n::plus \<Rightarrow> (string \<rightharpoonup> 'n User) \<Rightarrow> error + (string \<rightharpoonup> 'n User)" where
  "userService_update userId addPoints us =
     (case us userId of
        None \<Rightarrow> Inl (Error ''User not found'')
      | Some u \<Rightarrow> Inr (us(userId \<mapsto> u\<lparr>balance := balance u + addPoints\<rparr>)))"

section \<open>Portfolio service: listing and creation\<close>

definition listForUserAndOffers ::
  "(string \<Rightarrow> string option) \<Rightarrow> string \<Rightarrow> string list \<Rightarrow> 'n Portfolio list
     \<Rightarrow> error + 'n Portfolio list" where
  "listForUserAndOffers ObjectId userId offerIds ps =
     (if length offerIds = 0
      then Inl (BadRequestException ''At least one offer should be provided.'')
      else portfolioRepository_find ObjectId
             \<lparr>f_userId = Some userId, f_offerIds = Some offerIds, f_isAwarded = None\<rparr> ps)"

text \<open>
  \<open>validateSelectedTokens\<close> throws on a length mismatch and otherwise returns the
  boolean of \<open>every\<close>: whether each selected token is one of the two tokens of the pair
  at its position.
\<close>

definition validateSelectedTokens :: "string list \<Rightarrow> 'n PortfolioOffer \<Rightarrow> error + bool" where
  "validateSelectedTokens selected offer1 =
     (if length selected \<noteq> length (tokenOffers offer1)
      then Inl (BadRequestException ''Invalid number of selected tokens'')
      else Inr (list_all (\<lambda>(token, pair). firstToken pair = token \<or> secondToken pair = token)
                  (zip selected (tokenOffers offer1))))"

record CreatePortfolioParams =
  c_userId :: string
  c_selectedTokens :: "string list"
  c_offerId :: string

text \<open>
  \<open>create\<close>: \<open>currentDay\<close> is \<open>getCurrentDayInUtc()\<close>, \<open>newId\<close> the identifier of
  the stored document. The value that \<open>validateSelectedTokens\<close> returns is dropped by
  the caller, as in the source; only its exception leaves \<open>create\<close>.
\<close>

definition create ::
  "(string \<Rightarrow> string option) \<Rightarrow> int \<Rightarrow> string \<Rightarrow> CreatePortfolioParams \<Rightarrow> 'n state
     \<Rightarrow> error + ('n Portfolio \<times> 'n state)" where
  "create ObjectId currentDay newId params s =
     (case offerRepository_findById (c_offerId params) (offers s) of
        None \<Rightarrow> Inl (BadRequestException ''Provided offer is not found'')
      | Some offer1 \<Rightarrow>
     (case userService_getById (c_userId params) (users s) of
        None \<Rightarrow> Inl (BadRequestException ''Provided user is not found'')
      | Some _ \<Rightarrow>
        if day offer1 \<noteq> currentDay + 1
        then Inl (BadRequestException ''Provided offer is not available.'')
        else
     (case validateSelectedTokens (c_selectedTokens params) offer1 of
        Inl e \<Rightarrow> Inl e
      | Inr _ \<Rightarrow>
     (case existsByUserIdAndOfferId ObjectId (c_userId params) (c_offerId params)
             (portfolios s) of
        Inl e \<Rightarrow> Inl e
      | Inr portfolioForProvidedOfferExists \<Rightarrow>
        if portfolioForProvidedOfferExists
        then Inl (BadRequestException ''Portfolio for this day already submitted.'')
        else (case portfolioRepository_create newId (c_userId params) (c_selectedTokens params)
                     (c_offerId params) False (portfolios s) of
                (doc, ps') \<Rightarrow> Inr (doc, s\<lparr>portfolios := ps'\<rparr>))))))"

section \<open>Offer service: pricing synchronisation\<close>

text \<open>
  What the pricing gateway returns for a token and a day: the two prices, or nothing
  (\<open>None\<close>, the absence signal). The gateway \<open>getCoinPriceForDay\<close> and the helper
  \<open>calculatePercentageChange\<close> are not among the source files and are parameters.
\<close>

record 'n CoinPrice =
  startDayPrice :: 'n
  endDayPrice :: 'n

text \<open>The two local variables of one offer's pricing that the per-token handler writes.\<close>

record 'n pricing_locals =
  l_pricingChanges :: "string \<rightharpoonup> 'n"
  shouldSkipOffer :: bool

text \<open>
  The per-token handler (the arrow function mapped over a pair's two tokens): it sets the
  skip flag when the price is absent, and then reads \<open>startDayPrice\<close> and
  \<open>endDayPrice\<close> of the result whatever it is, which raises on an absent result.
\<close>

definition syncOffersPrices_token ::
  "(string \<Rightarrow> int \<Rightarrow> 'n CoinPrice option) \<Rightarrow> ('n \<Rightarrow> 'n \<Rightarrow> 'n) \<Rightarrow> int \<Rightarrow> string
     \<Rightarrow> 'n pricing_locals \<Rightarrow> (error + unit) \<times> 'n pricing_locals" where
  "syncOffersPrices_token getCoinPriceForDay calculatePercentageChange d token l =
     (let pricing = getCoinPriceForDay token d;
          l1 = (if pricing = None then l\<lparr>shouldSkipOffer := True\<rparr> else l)
      in case pricing of
           None \<Rightarrow> (Inl TypeError, l1)
         | Some pr \<Rightarrow>
             (Inr (), l1\<lparr>l_pricingChanges := (l_pricingChanges l1)
                (token \<mapsto> calculatePercentageChange (startDayPrice pr) (endDayPrice pr))\<rparr>))"

text \<open>
  \<open>Promise.all\<close> over the two handlers of a pair: both run on the shared locals, and
  the await raises when either of them raised.
\<close>

definition syncOffersPrices_pair ::
  "(string \<Rightarrow> int \<Rightarrow> 'n CoinPrice option) \<Rightarrow> ('n \<Rightarrow> 'n \<Rightarrow> 'n) \<Rightarrow> int \<Rightarrow> TokenOffer
     \<Rightarrow> 'n pricing_locals \<Rightarrow> (error + unit) \<times> 'n pricing_locals" where
  "syncOffersPrices_pair getCoinPriceForDay calculatePercentageChange d tokenOffer l =
     (case syncOffersPrices_token getCoinPriceForDay calculatePercentageChange d
             (firstToken tokenOffer) l of
        (r1, l1) \<Rightarrow>
     (case syncOffersPrices_token getCoinPriceForDay calculatePercentageChange d
             (secondToken tokenOffer) l1 of
        (r2, l2) \<Rightarrow> (case r1 of Inl e \<Rightarrow> Inl e | Inr _ \<Rightarrow> r2, l2)))"

text \<open>The loop over the offer's pairs, with its \<open>break\<close> on the skip flag.\<close>

fun syncOffersPrices_pairs ::
  "(string \<Rightarrow> int \<Rightarrow> 'n CoinPrice option) \<Rightarrow> ('n \<Rightarrow> 'n \<Rightarrow> 'n) \<Rightarrow> int \<Rightarrow> TokenOffer list
     \<Rightarrow> 'n pricing_locals \<Rightarrow> (error + unit) \<times> 'n pricing_locals" where
  "syncOffersPrices_pairs getCoinPriceForDay calculatePercentageChange d [] l = (Inr (), l)"
| "syncOffersPrices_pairs getCoinPriceForDay calculatePercentageChange d (tokenOffer # rest) l =
     (case syncOffersPrices_pair getCoinPriceForDay calculatePercentageChange d tokenOffer l of
        (Inl e, l') \<Rightarrow> (Inl e, l')
      | (Inr _, l') \<Rightarrow>
          if shouldSkipOffer l' then (Inr (), l')
          else syncOffersPrices_pairs getCoinPriceForDay calculatePercentageChange d rest l')"

text \<open>
  The body of the loop over the offers: the \<open>try\<close> block, its \<open>catch\<close> (an error
  line, after which the ``prices updated'' line is still written), the \<open>continue\<close> on
  the skip flag (no line at all) and the single update of status and pricing changes.
\<close>

definition syncOffersPrices_offer ::
  "(string \<Rightarrow> int \<Rightarrow> 'n CoinPrice option) \<Rightarrow> ('n \<Rightarrow> 'n \<Rightarrow> 'n) \<Rightarrow> 'n PortfolioOffer
     \<Rightarrow> 'n state \<Rightarrow> 'n state" where
  "syncOffersPrices_offer getCoinPriceForDay calculatePercentageChange offer1 s =
     (case syncOffersPrices_pairs getCoinPriceForDay calculatePercentageChange (day offer1)
             (tokenOffers offer1) \<lparr>l_pricingChanges = Map.empty, shouldSkipOffer = False\<rparr> of
        (Inl e, _) \<Rightarrow>
          s\<lparr>logs := logs s @ [LogPricesUpdateFailed e, LogPricesUpdated (offer_id offer1)]\<rparr>
      | (Inr _, l) \<Rightarrow>
          if shouldSkipOffer l then s
          else s\<lparr>offers := offerRepository_updateOneById (offer_id offer1)
                      (\<lambda>x. x\<lparr>offerStatus := WaitingForCompletion,
                              pricingChanges := l_pricingChanges l\<rparr>) (offers s),
                 logs := logs s @ [LogPricesUpdated (offer_id offer1)]\<rparr>)"

fun syncOffersPrices_offers ::
  "(string \<Rightarrow> int \<Rightarrow> 'n CoinPrice option) \<Rightarrow> ('n \<Rightarrow> 'n \<Rightarrow> 'n) \<Rightarrow> 'n PortfolioOffer list
     \<Rightarrow> 'n state \<Rightarrow> 'n state" where
  "syncOffersPrices_offers getCoinPriceForDay calculatePercentageChange [] s = s"
| "syncOffersPrices_offers getCoinPriceForDay calculatePercentageChange (offer1 # rest) s =
     syncOffersPrices_offers getCoinPriceForDay calculatePercentageChange rest
       (syncOffersPrices_offer getCoinPriceForDay calculatePercentageChange offer1 s)"

definition syncOffersPrices ::
  "(string \<Rightarrow> int \<Rightarrow> 'n CoinPrice option) \<Rightarrow> ('n \<Rightarrow> 'n \<Rightarrow> 'n) \<Rightarrow> int \<Rightarrow> 'n state \<Rightarrow> 'n state" where
  "syncOffersPrices getCoinPriceForDay calculatePercentageChange currentDay s =
     (let batch = findByOfferStatus WaitingForPricing (Some currentDay) (offers s)
      in if length batch = 0 then s
         else syncOffersPrices_offers getCoinPriceForDay calculatePercentageChange batch s)"

text \<open>
  The tokens of an offer, whether the gateway has a price for each of them, and the
  pricing changes that a complete pricing of the offer computes.
\<close>

definition offerTokens :: "'n PortfolioOffer \<Rightarrow> string list" where
  "offerTokens offer1 = concat (map (\<lambda>t. [firstToken t, secondToken t]) (tokenOffers offer1))"

definition allPriced :: "(string \<Rightarrow> int \<Rightarrow> 'n CoinPrice option) \<Rightarrow> 'n PortfolioOffer \<Rightarrow> bool" where
  "allPriced getCoinPriceForDay offer1 =
     list_all (\<lambda>token. getCoinPriceForDay token (day offer1) \<noteq> None) (offerTokens offer1)"

definition computedChanges ::
  "(string \<Rightarrow> int \<Rightarrow> 'n CoinPrice option) \<Rightarrow> ('n \<Rightarrow> 'n \<Rightarrow> 'n) \<Rightarrow> 'n PortfolioOffer
     \<Rightarrow> (string \<rightharpoonup> 'n)" where
  "computedChanges getCoinPriceForDay calculatePercentageChange offer1 =
     (\<lambda>token. if token \<in> set (offerTokens offer1)
        then map_option (\<lambda>pr. calculatePercentageChange (startDayPrice pr) (endDayPrice pr))
               (getCoinPriceForDay token (day offer1))
        else None)"

section \<open>Offer service: generation\<close>

definition MAX_DAYS_THRESHOLD :: int where
  "MAX_DAYS_THRESHOLD = 3"

definition OFFERS_TO_GENERATE :: int where
  "OFFERS_TO_GENERATE = 7"

definition MAX_TOKEN_OFFERS :: nat where
  "MAX_TOKEN_OFFERS = 6"

text \<open>
  Reading a JavaScript array at an index: \<open>undefined\<close> (here \<open>None\<close>) past its end.
\<close>

definition arrayAt :: "'a list \<Rightarrow> nat \<Rightarrow> 'a option" where
  "arrayAt xs i = (if i < length xs then Some (xs ! i) else None)"

text \<open>The parameters of one offer handed to \<open>createMany\<close>.\<close>

record CreateTokenOffer =
  c_firstToken :: "string option"
  c_secondToken :: "string option"

record 'd CreatePortfolioOfferEntityParams =
  c_day :: int
  c_date :: 'd
  c_tokenOffers :: "CreateTokenOffer list"

text \<open>
  The body of the generation loop for one day. \<open>getDateFromUtcDay\<close> and the token
  list are not among the source files; \<open>sampleSize d\<close> stands for the array that
  \<open>sampleSize(tokens, MAX_TOKEN_OFFERS * 2)\<close> returns in the iteration of day \<open>d\<close>.
\<close>

definition generateOffers_offer ::
  "(int \<Rightarrow> 'd) \<Rightarrow> (int \<Rightarrow> string list) \<Rightarrow> int \<Rightarrow> 'd CreatePortfolioOfferEntityParams" where
  "generateOffers_offer getDateFromUtcDay sampleSize d =
     (let availableTokens = sampleSize d
      in \<lparr>c_day = d, c_date = getDateFromUtcDay d,
          c_tokenOffers = map (\<lambda>index.
             \<lparr>c_firstToken = arrayAt availableTokens (index * 2),
              c_secondToken = arrayAt availableTokens (index * 2 + 1)\<rparr>) [0..<MAX_TOKEN_OFFERS]\<rparr>)"

text \<open>
  The loop \<open>for (let day = nextOfferDay; day <= nextOfferDay + OFFERS_TO_GENERATE; day++)\<close>,
  with \<open>lastDay\<close> its inclusive bound and \<open>acc\<close> the array \<open>offers\<close> built so far.
\<close>

function generateOffers_loop ::
  "(int \<Rightarrow> 'd) \<Rightarrow> (int \<Rightarrow> string list) \<Rightarrow> int \<Rightarrow> int
     \<Rightarrow> 'd CreatePortfolioOfferEntityParams list \<Rightarrow> 'd CreatePortfolioOfferEntityParams list" where
  "generateOffers_loop getDateFromUtcDay sampleSize d lastDay acc =
     (if d \<le> lastDay
      then generateOffers_loop getDateFromUtcDay sampleSize (d + 1) lastDay
             (acc @ [generateOffers_offer getDateFromUtcDay sampleSize d])
      else acc)"
  by pat_completeness auto
termination
  by (relation "measure (\<lambda>(getDateFromUtcDay, sampleSize, d, lastDay, acc). nat (lastDay + 1 - d))")
     auto

text \<open>
  \<open>generateOffers\<close> reads the latest offer and writes through one call of
  \<open>createMany\<close>, its only write. The result is the argument of that call, and
  \<open>None\<close> when the run returns without making it.
\<close>

definition generateOffers ::
  "(int \<Rightarrow> 'd) \<Rightarrow> (int \<Rightarrow> string list) \<Rightarrow> int \<Rightarrow> 'n PortfolioOffer list
     \<Rightarrow> 'd CreatePortfolioOfferEntityParams list option" where
  "generateOffers getDateFromUtcDay sampleSize currentDay os =
     (let lastOffer = findLatest os;
          nextOfferDay = (case lastOffer of Some x \<Rightarrow> day x + 1 | None \<Rightarrow> currentDay)
      in if nextOfferDay - currentDay > MAX_DAYS_THRESHOLD then None
         else Some (generateOffers_loop getDateFromUtcDay sampleSize nextOfferDay
                      (nextOfferDay + OFFERS_TO_GENERATE) []))"

section \<open>Portfolio service: awarding\<close>

definition listOffersWaitingForCompletion :: "'n PortfolioOffer list \<Rightarrow> 'n PortfolioOffer list" where
  "listOffersWaitingForCompletion os = findByOfferStatus WaitingForCompletion None os"

definition markOfferCompleted :: "string \<Rightarrow> 'n state \<Rightarrow> 'n state" where
  "markOfferCompleted offerId s =
     s\<lparr>offers := offerRepository_updateOneById offerId (\<lambda>x. x\<lparr>offerStatus := Completed\<rparr>)
                    (offers s)\<rparr>"

text \<open>
  \<open>offer.getPriceChanges()\<close>. The interface \<open>PortfolioOfferEntity\<close> and the class
  \<open>MongoPortfolioOfferEntity\<close> of the source define \<open>getId\<close>, \<open>getDay\<close> and
  \<open>getTokenOffers\<close> and nothing else, so the call of the source raises a
  \<open>TypeError\<close>: that is \<open>entity_getPriceChanges\<close>. The awarding below takes the
  getter as a parameter \<open>getPriceChanges\<close> (the percentages by token, or the exception
  of the call), so that what it does can be stated for the entity of the source and for
  an entity that has the method.
\<close>

definition entity_getPriceChanges :: "'n PortfolioOffer \<Rightarrow> error + (string \<rightharpoonup> 'n)" where
  "entity_getPriceChanges offer1 = Inl TypeError"

text \<open>
  The \<open>reduce\<close> over the selected tokens, from the accumulator \<open>points\<close>: a token
  whose percentage is not a number raises.
\<close>

fun earnedPoints_reduce :: "(string \<rightharpoonup> 'n::plus) \<Rightarrow> 'n \<Rightarrow> string list \<Rightarrow> error + 'n" where
  "earnedPoints_reduce pc points [] = Inr points"
| "earnedPoints_reduce pc points (selectedToken # rest) =
     (case pc selectedToken of
        None \<Rightarrow> Inl (Error ''Percentage change not found for token.'')
      | Some percentage \<Rightarrow> earnedPoints_reduce pc (points + percentage) rest)"

text \<open>
  Modelled from the spec: the transactions manager is not among the source files. The
  spec's Transaction Coordinator ``executes \<open>fn\<close> with all enclosed store writes visible
  atomically; on any error inside \<open>fn\<close>, all enclosed writes are discarded''. The error
  is raised again to the caller.
\<close>

definition useTransaction :: "('s \<Rightarrow> error + 's) \<Rightarrow> 's \<Rightarrow> error option \<times> 's" where
  "useTransaction body s = (case body s of Inl e \<Rightarrow> (Some e, s) | Inr s' \<Rightarrow> (None, s'))"

text \<open>The body of the transaction: the portfolio update, then the credit of the user.\<close>

definition awardPortfolios_transaction ::
  "(string \<Rightarrow> string option) \<Rightarrow> 'n Portfolio \<Rightarrow> 'n::plus \<Rightarrow> 'n state \<Rightarrow> error + 'n state" where
  "awardPortfolios_transaction ObjectId portfolio points s =
     (case portfolioRepository_updateOneById ObjectId (portfolio_id portfolio) True points
             (portfolios s) of
        Inl e \<Rightarrow> Inl e
      | Inr ps' \<Rightarrow>
     (case userService_update (user portfolio) points (users s) of
        Inl e \<Rightarrow> Inl e
      | Inr us \<Rightarrow> Inr (s\<lparr>portfolios := ps', users := us\<rparr>)))"

text \<open>
  The loop over the portfolios of one offer. An exception leaves the loop; the state
  reached so far stays, since every earlier transaction is committed.
\<close>

fun awardPortfolios_portfolios ::
  "(string \<Rightarrow> string option) \<Rightarrow> (string \<rightharpoonup> 'n::{zero,plus}) \<Rightarrow> 'n Portfolio list \<Rightarrow> 'n state
     \<Rightarrow> error option \<times> 'n state" where
  "awardPortfolios_portfolios ObjectId pc [] s = (None, s)"
| "awardPortfolios_portfolios ObjectId pc (portfolio # rest) s =
     (case earnedPoints_reduce pc 0 (selectedTokens portfolio) of
        Inl e \<Rightarrow> (Some e, s)
      | Inr points \<Rightarrow>
          (case useTransaction (awardPortfolios_transaction ObjectId portfolio points) s of
             (Some e, s') \<Rightarrow> (Some e, s')
           | (None, s') \<Rightarrow> awardPortfolios_portfolios ObjectId pc rest s'))"

text \<open>
  \<open>groupBy\<close> of lodash on the offer identifier: an object that has a key only for a
  non-empty group.
\<close>

definition groupBy_offer :: "'n Portfolio list \<Rightarrow> (string \<rightharpoonup> 'n Portfolio list)" where
  "groupBy_offer ps =
     (\<lambda>key. let g = filter (\<lambda>p. offer p = key) ps in if g = [] then None else Some g)"

text \<open>
  The body of the loop over the offers: the \<open>try\<close> block, which calls the getter, awards
  the offer's group (the empty list when the object has no such key) and then marks the
  offer completed, and the \<open>catch\<close>, which only logs.
\<close>

definition awardPortfolios_offer ::
  "(string \<Rightarrow> string option) \<Rightarrow> ('n PortfolioOffer \<Rightarrow> error + (string \<rightharpoonup> 'n))
     \<Rightarrow> (string \<rightharpoonup> 'n Portfolio list) \<Rightarrow> 'n::{zero,plus} PortfolioOffer \<Rightarrow> 'n state \<Rightarrow> 'n state" where
  "awardPortfolios_offer ObjectId getPriceChanges groupedPortfolios offer1 s =
     (case getPriceChanges offer1 of
        Inl e \<Rightarrow> s\<lparr>logs := logs s @ [LogAwardFailed (offer_id offer1) e]\<rparr>
      | Inr offerPriceChanges \<Rightarrow>
     (let group = (case groupedPortfolios (offer_id offer1) of None \<Rightarrow> [] | Some g \<Rightarrow> g)
      in case awardPortfolios_portfolios ObjectId offerPriceChanges group s of
           (None, s') \<Rightarrow>
             (let s2 = markOfferCompleted (offer_id offer1) s'
              in s2\<lparr>logs := logs s2 @ [LogOfferCompleted (offer_id offer1) (length group)]\<rparr>)
         | (Some e, s') \<Rightarrow> s'\<lparr>logs := logs s' @ [LogAwardFailed (offer_id offer1) e]\<rparr>))"

fun awardPortfolios_offers ::
  "(string \<Rightarrow> string option) \<Rightarrow> ('n PortfolioOffer \<Rightarrow> error + (string \<rightharpoonup> 'n))
     \<Rightarrow> (string \<rightharpoonup> 'n Portfolio list) \<Rightarrow> 'n::{zero,plus} PortfolioOffer list \<Rightarrow> 'n state
     \<Rightarrow> 'n state" where
  "awardPortfolios_offers ObjectId getPriceChanges groupedPortfolios [] s = s"
| "awardPortfolios_offers ObjectId getPriceChanges groupedPortfolios (offer1 # rest) s =
     awardPortfolios_offers ObjectId getPriceChanges groupedPortfolios rest
       (awardPortfolios_offer ObjectId getPriceChanges groupedPortfolios offer1 s)"

text \<open>
  \<open>awardPortfolios\<close>: the two queries are outside the loop and its \<open>try\<close>, so an
  exception of the portfolio query ends the run.
\<close>

definition awardPortfolios ::
  "(string \<Rightarrow> string option) \<Rightarrow> ('n PortfolioOffer \<Rightarrow> error + (string \<rightharpoonup> 'n))
     \<Rightarrow> 'n::{zero,plus} state \<Rightarrow> error + 'n state" where
  "awardPortfolios ObjectId getPriceChanges s =
     (let waiting = listOffersWaitingForCompletion (offers s)
      in case portfolioRepository_find ObjectId
                \<lparr>f_userId = None, f_offerIds = Some (map offer_id waiting),
                 f_isAwarded = Some False\<rparr> (portfolios s) of
           Inl e \<Rightarrow> Inl e
         | Inr found \<Rightarrow>
             Inr (awardPortfolios_offers ObjectId getPriceChanges (groupBy_offer found)
                    waiting s))"

text \<open>
  Vocabulary for the properties of a run: \<open>pendingOf s x\<close> are the non-awarded
  portfolios of offer \<open>x\<close> in store order; \<open>tokensPriced pc p\<close> says that each
  selected token of \<open>p\<close> has a percentage in \<open>pc\<close>; \<open>groupOf g x\<close> is the group the
  loop body reads for offer \<open>x\<close> (\<open>groupedPortfolios[offer.getId()] || []\<close>).
\<close>

definition pendingOf :: "'n state \<Rightarrow> 'n PortfolioOffer \<Rightarrow> 'n Portfolio list" where
  "pendingOf s x = filter (\<lambda>p. offer p = offer_id x \<and> \<not> isAwarded p) (portfolios s)"

definition tokensPriced :: "(string \<rightharpoonup> 'n) \<Rightarrow> 'n Portfolio \<Rightarrow> bool" where
  "tokensPriced pc p = list_all (\<lambda>token. pc token \<noteq> None) (selectedTokens p)"



section \<open>Example identifiers\<close>

text \<open>
  Identifiers of 24 hexadecimal digits for the examples: an offer, two users and two
  portfolios. \<open>hexObjectId\<close> accepts each of them and rejects \<open>zzz\<close>.
\<close>

abbreviation (input) demo_offer_id :: string where
  "demo_offer_id \<equiv> ''65a1b2c3d4e5f60718293a01''"

abbreviation (input) demo_ann_id :: string where
  "demo_ann_id \<equiv> ''65a1b2c3d4e5f60718293b01''"

abbreviation (input) demo_bob_id :: string where
  "demo_bob_id \<equiv> ''65a1b2c3d4e5f60718293b02''"

abbreviation (input) demo_first_id :: string where
  "demo_first_id \<equiv> ''65a1b2c3d4e5f60718293c01''"

abbreviation (input) demo_second_id :: string where
  "demo_second_id \<equiv> ''65a1b2c3d4e5f60718293c02''"

lemma hexObjectId_demo:
  "hexObjectId demo_offer_id = Some demo_offer_id"
  "hexObjectId demo_ann_id = Some demo_ann_id"
  "hexObjectId demo_bob_id = Some demo_bob_id"
  "hexObjectId demo_first_id = Some demo_first_id"
  "hexObjectId demo_second_id = Some demo_second_id"
  "hexObjectId ''zzz'' = None"
  by (simp_all add: hexObjectId_def)

section \<open>Listing\<close>

lemma those_map:
  "those (map f xs) =
     (if list_all (\<lambda>i. f i \<noteq> None) xs then Some (map (\<lambda>i. the (f i)) xs) else None)"
  by (induction xs) (auto split: option.splits)

lemma find_by_user_and_offers:
  "portfolioRepository_find ObjectId
     \<lparr>f_userId = Some userId, f_offerIds = Some offerIds, f_isAwarded = None\<rparr> ps =
   (case ObjectId userId of
      None \<Rightarrow> Inl BSONError
    | Some u \<Rightarrow>
        if list_all (\<lambda>i. ObjectId i \<noteq> None) offerIds
        then Inr (filter (\<lambda>p. user p = u \<and> offer p \<in> set (map (\<lambda>i. the (ObjectId i)) offerIds)) ps)
        else Inl BSONError)"
  by (simp add: portfolioRepository_find_def those_map split: option.splits)

text \<open>
  C10 as stated fails: a non-empty \<open>offerIds\<close> that holds a string which is no object
  id makes \<open>new ObjectId\<close> raise while the filter is built. With the offer of a stored
  portfolio of the user and \<open>zzz\<close> as \<open>offerIds\<close>, the call ends in the driver's
  \<open>BSONError\<close> and returns no portfolio.
\<close>

theorem listForUserAndOffers_malformed_id_counterexample:
  "listForUserAndOffers hexObjectId demo_ann_id [demo_offer_id, ''zzz'']
     [\<lparr>portfolio_id = demo_first_id, user = demo_ann_id, selectedTokens = [''BTC''],
        offer = demo_offer_id, isAwarded = False, earnedPoints = (None :: int option)\<rparr>]
   = Inl BSONError"
  by (simp add: listForUserAndOffers_def find_by_user_and_offers hexObjectId_demo)

text \<open>
  C10, as the code has it. \<open>listForUserAndOffers\<close> rejects an empty \<open>offerIds\<close> with
  the client-fault error whatever the user identifier and the store are (so the store is
  not consulted). For a non-empty \<open>offerIds\<close>, when the user identifier and every offer
  identifier are object ids, it returns the portfolios of that user whose offer is among
  them; when one of them is no object id, it raises the \<open>BSONError\<close> of the constructor.
\<close>

theorem listForUserAndOffers_spec:
  "(\<forall>ps :: 'n Portfolio list. listForUserAndOffers ObjectId userId [] ps
       = Inl (BadRequestException ''At least one offer should be provided.'')) \<and>
   (offerIds \<noteq> [] \<and> ObjectId userId = Some u \<and>
    list_all (\<lambda>i. ObjectId i \<noteq> None) offerIds \<longrightarrow>
      listForUserAndOffers ObjectId userId offerIds (qs :: 'n Portfolio list)
        = Inr (filter (\<lambda>p. user p = u \<and>
                            offer p \<in> set (map (\<lambda>i. the (ObjectId i)) offerIds)) qs)) \<and>
   (offerIds \<noteq> [] \<and>
    (ObjectId userId = None \<or> list_ex (\<lambda>i. ObjectId i = None) offerIds) \<longrightarrow>
      listForUserAndOffers ObjectId userId offerIds qs = Inl BSONError)"
  by (auto simp: listForUserAndOffers_def find_by_user_and_offers list_all_iff list_ex_iff
        split: option.splits)

theorem listForUserAndOffers_spec_witness:
  "[demo_offer_id] \<noteq> [] \<and> hexObjectId demo_ann_id = Some demo_ann_id \<and>
   list_all (\<lambda>i. hexObjectId i \<noteq> None) [demo_offer_id] \<and>
   listForUserAndOffers hexObjectId demo_ann_id [demo_offer_id]
     [\<lparr>portfolio_id = demo_first_id, user = demo_ann_id, selectedTokens = [''BTC''],
        offer = demo_offer_id, isAwarded = False, earnedPoints = None\<rparr>,
      \<lparr>portfolio_id = demo_second_id, user = demo_bob_id, selectedTokens = [''ETH''],
        offer = demo_offer_id, isAwarded = False, earnedPoints = (None :: int option)\<rparr>]
   = Inr [\<lparr>portfolio_id = demo_first_id, user = demo_ann_id, selectedTokens = [''BTC''],
        offer = demo_offer_id, isAwarded = False, earnedPoints = None\<rparr>] \<and>
   [''zzz''] \<noteq> [] \<and> list_ex (\<lambda>i. hexObjectId i = None) [''zzz''] \<and>
   listForUserAndOffers hexObjectId demo_ann_id [''zzz'']
     [\<lparr>portfolio_id = demo_first_id, user = demo_ann_id, selectedTokens = [''BTC''],
        offer = demo_offer_id, isAwarded = False, earnedPoints = (None :: int option)\<rparr>]
   = Inl BSONError"
proof -
  have h: "hexObjectId demo_ann_id = Some demo_ann_id"
    "list_all (\<lambda>i. hexObjectId i \<noteq> None) [demo_offer_id]"
    "list_ex (\<lambda>i. hexObjectId i = None) [''zzz'']"
    by (simp_all add: hexObjectId_demo)
  have ok: "listForUserAndOffers hexObjectId demo_ann_id [demo_offer_id]
     [\<lparr>portfolio_id = demo_first_id, user = demo_ann_id, selectedTokens = [''BTC''],
        offer = demo_offer_id, isAwarded = False, earnedPoints = None\<rparr>,
      \<lparr>portfolio_id = demo_second_id, user = demo_bob_id, selectedTokens = [''ETH''],
        offer = demo_offer_id, isAwarded = False, earnedPoints = (None :: int option)\<rparr>]
   = Inr [\<lparr>portfolio_id = demo_first_id, user = demo_ann_id, selectedTokens = [''BTC''],
        offer = demo_offer_id, isAwarded = False, earnedPoints = None\<rparr>]"
    using h listForUserAndOffers_spec [where ObjectId = hexObjectId and userId = demo_ann_id
      and offerIds = "[demo_offer_id]" and u = demo_ann_id
      and qs = "[\<lparr>portfolio_id = demo_first_id, user = demo_ann_id, selectedTokens = [''BTC''],
        offer = demo_offer_id, isAwarded = False, earnedPoints = None\<rparr>,
      \<lparr>portfolio_id = demo_second_id, user = demo_bob_id, selectedTokens = [''ETH''],
        offer = demo_offer_id, isAwarded = False, earnedPoints = (None :: int option)\<rparr>]"]
    by (simp add: hexObjectId_demo)
  have bad: "listForUserAndOffers hexObjectId demo_ann_id [''zzz'']
     [\<lparr>portfolio_id = demo_first_id, user = demo_ann_id, selectedTokens = [''BTC''],
        offer = demo_offer_id, isAwarded = False, earnedPoints = (None :: int option)\<rparr>]
   = Inl BSONError"
    using h listForUserAndOffers_spec [where ObjectId = hexObjectId and userId = demo_ann_id
      and offerIds = "[''zzz'']"
      and qs = "[\<lparr>portfolio_id = demo_first_id, user = demo_ann_id, selectedTokens = [''BTC''],
        offer = demo_offer_id, isAwarded = False, earnedPoints = (None :: int option)\<rparr>]"]
    by simp
  from h ok bad show ?thesis by simp
qed

section \<open>Creation\<close>

text \<open>
  Past the checks of offer, user and day, a selection of the wrong length is rejected;
  a selection of the right length is stored when the two identifiers are object ids and
  the user has no portfolio for the offer yet, whatever its tokens are.
\<close>

lemma create_rejects_length_mismatch:
  "offerRepository_findById (c_offerId params) (offers s) = Some offer1 \<Longrightarrow>
   users s (c_userId params) = Some u \<Longrightarrow> day offer1 = currentDay + 1 \<Longrightarrow>
   length (c_selectedTokens params) \<noteq> length (tokenOffers offer1) \<Longrightarrow>
   create ObjectId currentDay newId params s
     = Inl (BadRequestException ''Invalid number of selected tokens'')"
  by (simp add: create_def userService_getById_def validateSelectedTokens_def)

lemma create_ignores_positional_check:
  "offerRepository_findById (c_offerId params) (offers s) = Some offer1 \<Longrightarrow>
   users s (c_userId params) = Some u \<Longrightarrow> day offer1 = currentDay + 1 \<Longrightarrow>
   length (c_selectedTokens params) = length (tokenOffers offer1) \<Longrightarrow>
   existsByUserIdAndOfferId ObjectId (c_userId params) (c_offerId params) (portfolios s)
     = Inr False \<Longrightarrow>
   \<exists>doc. create ObjectId currentDay newId params s
           = Inr (doc, s\<lparr>portfolios := portfolios s @ [doc]\<rparr>) \<and>
     selectedTokens doc = c_selectedTokens params \<and> \<not> isAwarded doc"
  by (simp add: create_def userService_getById_def validateSelectedTokens_def
        portfolioRepository_create_def Let_def)

text \<open>
  C1. The length check of \<open>validateSelectedTokens\<close> does reject, but the outcome of the
  positional check is returned as a boolean that \<open>create\<close> never reads. With an offer
  for tomorrow whose only pair is (BTC, ETH), an existing user and no earlier portfolio,
  the selection [DOGE] fails the positional check and is stored all the same.
\<close>

theorem create_stores_unmatched_token:
  "validateSelectedTokens [''DOGE'']
     \<lparr>offer_id = demo_offer_id, day = 11,
      tokenOffers = [\<lparr>firstToken = ''BTC'', secondToken = ''ETH''\<rparr>],
      offerStatus = WaitingForPricing, pricingChanges = (Map.empty :: string \<rightharpoonup> int)\<rparr>
     = Inr False \<and>
   create hexObjectId 10 demo_first_id
     \<lparr>c_userId = demo_ann_id, c_selectedTokens = [''DOGE''], c_offerId = demo_offer_id\<rparr>
     \<lparr>offers = [\<lparr>offer_id = demo_offer_id, day = 11,
                  tokenOffers = [\<lparr>firstToken = ''BTC'', secondToken = ''ETH''\<rparr>],
                  offerStatus = WaitingForPricing, pricingChanges = Map.empty\<rparr>],
      portfolios = [],
      users = [demo_ann_id \<mapsto>
                 \<lparr>fid = 1, balance = (1000 :: int), userName = ''ann'', imageUrl = ''''\<rparr>],
      logs = []\<rparr>
     = Inr (\<lparr>portfolio_id = demo_first_id, user = demo_ann_id, selectedTokens = [''DOGE''],
             offer = demo_offer_id, isAwarded = False, earnedPoints = None\<rparr>,
           \<lparr>offers = [\<lparr>offer_id = demo_offer_id, day = 11,
                  tokenOffers = [\<lparr>firstToken = ''BTC'', secondToken = ''ETH''\<rparr>],
                  offerStatus = WaitingForPricing, pricingChanges = Map.empty\<rparr>],
            portfolios = [\<lparr>portfolio_id = demo_first_id, user = demo_ann_id,
                  selectedTokens = [''DOGE''], offer = demo_offer_id, isAwarded = False,
                  earnedPoints = None\<rparr>],
            users = [demo_ann_id \<mapsto>
                       \<lparr>fid = 1, balance = 1000, userName = ''ann'', imageUrl = ''''\<rparr>],
            logs = []\<rparr>)"
  by (simp add: validateSelectedTokens_def create_def offerRepository_findById_def
        userService_getById_def existsByUserIdAndOfferId_def portfolioRepository_create_def
        hexObjectId_demo Let_def)

section \<open>Pricing synchronisation: the per-offer outcome\<close>

lemma token_absent:
  "gw token d = None \<Longrightarrow>
   syncOffersPrices_token gw calc d token l = (Inl TypeError, l\<lparr>shouldSkipOffer := True\<rparr>)"
  by (simp add: syncOffersPrices_token_def)

lemma token_present:
  "gw token d = Some pr \<Longrightarrow>
   syncOffersPrices_token gw calc d token l =
     (Inr (), l\<lparr>l_pricingChanges := (l_pricingChanges l)
        (token \<mapsto> calc (startDayPrice pr) (endDayPrice pr))\<rparr>)"
  by (simp add: syncOffersPrices_token_def)

lemma pair_absent:
  "gw (firstToken t) d = None \<or> gw (secondToken t) d = None \<Longrightarrow>
   fst (syncOffersPrices_pair gw calc d t l) = Inl TypeError"
  by (cases "gw (firstToken t) d"; cases "gw (secondToken t) d")
     (auto simp: syncOffersPrices_pair_def token_absent token_present)

lemma pair_present:
  "gw (firstToken t) d = Some a \<Longrightarrow> gw (secondToken t) d = Some b \<Longrightarrow>
   syncOffersPrices_pair gw calc d t l =
     (Inr (), l\<lparr>l_pricingChanges := (l_pricingChanges l)
        (firstToken t \<mapsto> calc (startDayPrice a) (endDayPrice a),
         secondToken t \<mapsto> calc (startDayPrice b) (endDayPrice b))\<rparr>)"
  by (simp add: syncOffersPrices_pair_def token_present)

lemma pairs_absent:
  "\<not> shouldSkipOffer l \<Longrightarrow>
   \<not> list_all (\<lambda>token. gw token d \<noteq> None) (concat (map (\<lambda>t. [firstToken t, secondToken t]) ts)) \<Longrightarrow>
   fst (syncOffersPrices_pairs gw calc d ts l) = Inl TypeError"
proof (induction ts arbitrary: l)
  case Nil
  then show ?case by simp
next
  case (Cons t ts)
  show ?case
  proof (cases "gw (firstToken t) d = None \<or> gw (secondToken t) d = None")
    case True
    from pair_absent [where gw = gw and t = t and d = d and calc = calc and l = l] True show ?thesis
      by (cases "syncOffersPrices_pair gw calc d t l") auto
  next
    case False
    then obtain a b where ab: "gw (firstToken t) d = Some a" "gw (secondToken t) d = Some b"
      by auto
    have rest: "\<not> list_all (\<lambda>token. gw token d \<noteq> None)
                   (concat (map (\<lambda>t. [firstToken t, secondToken t]) ts))"
      using Cons.prems(2) ab by simp
    show ?thesis
      using Cons.IH [OF _ rest] Cons.prems(1)
      by (simp add: pair_present [where gw = gw, OF ab])
  qed
qed

lemma pairs_present:
  "\<not> shouldSkipOffer l \<Longrightarrow>
   list_all (\<lambda>token. gw token d \<noteq> None) (concat (map (\<lambda>t. [firstToken t, secondToken t]) ts)) \<Longrightarrow>
   \<exists>l'. syncOffersPrices_pairs gw calc d ts l = (Inr (), l') \<and> \<not> shouldSkipOffer l' \<and>
     l_pricingChanges l' = (\<lambda>token.
        if token \<in> set (concat (map (\<lambda>t. [firstToken t, secondToken t]) ts))
        then map_option (\<lambda>pr. calc (startDayPrice pr) (endDayPrice pr)) (gw token d)
        else l_pricingChanges l token)"
proof (induction ts arbitrary: l)
  case Nil
  then show ?case by simp
next
  case (Cons t ts)
  from Cons.prems(2) obtain a b where
    ab: "gw (firstToken t) d = Some a" "gw (secondToken t) d = Some b"
    by auto
  have rest: "list_all (\<lambda>token. gw token d \<noteq> None)
                 (concat (map (\<lambda>t. [firstToken t, secondToken t]) ts))"
    using Cons.prems(2) by simp
  define l1 where "l1 = l\<lparr>l_pricingChanges := (l_pricingChanges l)
        (firstToken t \<mapsto> calc (startDayPrice a) (endDayPrice a),
         secondToken t \<mapsto> calc (startDayPrice b) (endDayPrice b))\<rparr>"
  have step: "syncOffersPrices_pair gw calc d t l = (Inr (), l1)"
    unfolding l1_def by (rule pair_present [where gw = gw, OF ab])
  have noskip: "\<not> shouldSkipOffer l1"
    using Cons.prems(1) by (simp add: l1_def)
  from Cons.IH [OF noskip rest] obtain l' where
    l': "syncOffersPrices_pairs gw calc d ts l1 = (Inr (), l')" "\<not> shouldSkipOffer l'"
      "l_pricingChanges l' = (\<lambda>token.
        if token \<in> set (concat (map (\<lambda>t. [firstToken t, secondToken t]) ts))
        then map_option (\<lambda>pr. calc (startDayPrice pr) (endDayPrice pr)) (gw token d)
        else l_pricingChanges l1 token)"
    by blast
  have "syncOffersPrices_pairs gw calc d (t # ts) l = (Inr (), l')"
    using step noskip l'(1) by simp
  moreover have "l_pricingChanges l' = (\<lambda>token.
        if token \<in> set (concat (map (\<lambda>t. [firstToken t, secondToken t]) (t # ts)))
        then map_option (\<lambda>pr. calc (startDayPrice pr) (endDayPrice pr)) (gw token d)
        else l_pricingChanges l token)"
    using ab by (auto simp: l'(3) l1_def fun_eq_iff)
  ultimately show ?case using l'(2) by blast
qed

lemma offer_absent:
  "\<not> allPriced gw x \<Longrightarrow>
   syncOffersPrices_offer gw calc x s =
     s\<lparr>logs := logs s @ [LogPricesUpdateFailed TypeError, LogPricesUpdated (offer_id x)]\<rparr>"
  using pairs_absent [of "\<lparr>l_pricingChanges = Map.empty, shouldSkipOffer = False\<rparr>" gw "day x"
          "tokenOffers x" calc]
  by (auto simp: syncOffersPrices_offer_def allPriced_def offerTokens_def split: prod.splits sum.splits)

lemma offer_present:
  assumes "allPriced gw x"
  shows "syncOffersPrices_offer gw calc x s =
     s\<lparr>offers := offerRepository_updateOneById (offer_id x)
                   (\<lambda>y. y\<lparr>offerStatus := WaitingForCompletion,
                           pricingChanges := computedChanges gw calc x\<rparr>) (offers s),
       logs := logs s @ [LogPricesUpdated (offer_id x)]\<rparr>"
proof -
  from assms pairs_present [of "\<lparr>l_pricingChanges = Map.empty, shouldSkipOffer = False\<rparr>" gw "day x"
          "tokenOffers x" calc]
  obtain l' where l': "syncOffersPrices_pairs gw calc (day x) (tokenOffers x)
        \<lparr>l_pricingChanges = Map.empty, shouldSkipOffer = False\<rparr> = (Inr (), l')"
      "\<not> shouldSkipOffer l'"
      "l_pricingChanges l' = computedChanges gw calc x"
    by (auto simp: allPriced_def offerTokens_def computedChanges_def cong: if_cong)
  show ?thesis
    by (simp add: syncOffersPrices_offer_def l')
qed

section \<open>Pricing synchronisation: the loop over the batch\<close>

lemma offer_update_ids:
  "(\<And>y. offer_id (f y) = offer_id y) \<Longrightarrow>
   map offer_id (offerRepository_updateOneById k f os) = map offer_id os"
  by (induction os) auto

lemma offer_update_frame:
  "y \<in> set os \<Longrightarrow> offer_id y \<noteq> k \<Longrightarrow> y \<in> set (offerRepository_updateOneById k f os)"
  by (induction os) auto

lemma offer_update_hit:
  "distinct (map offer_id os) \<Longrightarrow> y \<in> set os \<Longrightarrow>
   f y \<in> set (offerRepository_updateOneById (offer_id y) f os)"
  by (induction os) force+

lemma findById_distinct:
  "distinct (map offer_id os) \<Longrightarrow> y \<in> set os \<Longrightarrow>
   offerRepository_findById (offer_id y) os = Some y"
  unfolding offerRepository_findById_def
  by (induction os) force+

lemma sync_offer_ids:
  "map offer_id (offers (syncOffersPrices_offer gw calc x t)) = map offer_id (offers t)"
  by (cases "allPriced gw x") (simp_all add: offer_absent offer_present offer_update_ids)

lemma sync_offer_frame:
  "y \<in> set (offers t) \<Longrightarrow> offer_id y \<noteq> offer_id x \<Longrightarrow>
   y \<in> set (offers (syncOffersPrices_offer gw calc x t))"
  by (cases "allPriced gw x") (simp_all add: offer_absent offer_present offer_update_frame)

lemma sync_offers_ids:
  "map offer_id (offers (syncOffersPrices_offers gw calc xs t)) = map offer_id (offers t)"
  by (induction xs arbitrary: t) (simp_all add: sync_offer_ids)

lemma sync_offers_frame:
  "y \<in> set (offers t) \<Longrightarrow> offer_id y \<notin> offer_id ` set xs \<Longrightarrow>
   y \<in> set (offers (syncOffersPrices_offers gw calc xs t))"
  by (induction xs arbitrary: t) (simp_all add: sync_offer_frame)

lemma sync_offers_absent_kept:
  "\<not> allPriced gw x \<Longrightarrow> x \<in> set (offers t) \<Longrightarrow>
   (\<And>z. z \<in> set xs \<Longrightarrow> offer_id z = offer_id x \<Longrightarrow> z = x) \<Longrightarrow>
   x \<in> set (offers (syncOffersPrices_offers gw calc xs t))"
proof (induction xs arbitrary: t)
  case Nil
  then show ?case by simp
next
  case (Cons z zs)
  have "x \<in> set (offers (syncOffersPrices_offer gw calc z t))"
  proof (cases "offer_id z = offer_id x")
    case True
    with Cons.prems(3) have "z = x" by simp
    with Cons.prems(1,2) show ?thesis by (simp add: offer_absent)
  next
    case False
    with Cons.prems(2) show ?thesis by (simp add: sync_offer_frame)
  qed
  with Cons show ?case by simp
qed

lemma sync_offers_hit:
  "distinct (map offer_id xs) \<Longrightarrow> distinct (map offer_id (offers t)) \<Longrightarrow>
   y \<in> set xs \<Longrightarrow> y \<in> set (offers t) \<Longrightarrow> allPriced gw y \<Longrightarrow>
   y\<lparr>offerStatus := WaitingForCompletion, pricingChanges := computedChanges gw calc y\<rparr>
     \<in> set (offers (syncOffersPrices_offers gw calc xs t))"
proof (induction xs arbitrary: t)
  case Nil
  then show ?case by simp
next
  case (Cons z zs)
  let ?t1 = "syncOffersPrices_offer gw calc z t"
  have d1: "distinct (map offer_id (offers ?t1))"
    using Cons.prems(2) by (simp add: sync_offer_ids)
  show ?case
  proof (cases "y = z")
    case True
    have "y\<lparr>offerStatus := WaitingForCompletion, pricingChanges := computedChanges gw calc y\<rparr>
            \<in> set (offers ?t1)"
      using True Cons.prems(2,4,5) offer_update_hit [of "offers t" y]
      by (simp add: offer_present)
    moreover have "offer_id y \<notin> offer_id ` set zs"
      using True Cons.prems(1) by simp
    ultimately show ?thesis
      using sync_offers_frame [of _ ?t1 zs gw calc] by simp
  next
    case False
    with Cons.prems(1,3) have "offer_id y \<noteq> offer_id z" by (auto simp: image_iff)
    with Cons.prems(4) have "y \<in> set (offers ?t1)" by (simp add: sync_offer_frame)
    with Cons.IH [of ?t1] Cons.prems d1 False show ?thesis by simp
  qed
qed

section \<open>Example data for pricing\<close>

text \<open>
  A gateway that has no price for ETH, a percentage helper on integers, and a store with
  one offer that contains ETH and one that does not.
\<close>

abbreviation (input) demo_gateway :: "string \<Rightarrow> int \<Rightarrow> int CoinPrice option" where
  "demo_gateway \<equiv> (\<lambda>token d. if token = ''ETH'' then None
                      else Some \<lparr>startDayPrice = 100, endDayPrice = 110\<rparr>)"

abbreviation (input) demo_change :: "int \<Rightarrow> int \<Rightarrow> int" where
  "demo_change \<equiv> (\<lambda>startPrice endPrice. endPrice - startPrice)"

abbreviation demo_unpriced_offer :: "int PortfolioOffer" where
  "demo_unpriced_offer \<equiv>
     \<lparr>offer_id = ''o1'', day = 11,
      tokenOffers = [\<lparr>firstToken = ''BTC'', secondToken = ''ETH''\<rparr>],
      offerStatus = WaitingForPricing, pricingChanges = Map.empty\<rparr>"

abbreviation demo_priced_offer :: "int PortfolioOffer" where
  "demo_priced_offer \<equiv>
     \<lparr>offer_id = ''o2'', day = 12,
      tokenOffers = [\<lparr>firstToken = ''SOL'', secondToken = ''ADA''\<rparr>],
      offerStatus = WaitingForPricing, pricingChanges = Map.empty\<rparr>"

abbreviation demo_pricing_state :: "int state" where
  "demo_pricing_state \<equiv>
     \<lparr>offers = [demo_unpriced_offer, demo_priced_offer], portfolios = [],
      users = Map.empty, logs = []\<rparr>"

text \<open>
  C4. Let an offer of the batch (waiting for pricing, its day not after the current day)
  have a token for which the gateway returns nothing. After the run the store still holds
  that offer as it was (status \<open>WaitingForPricing\<close>, pricing changes untouched), and
  every offer of the batch whose tokens all have a price has been moved to
  \<open>WaitingForCompletion\<close> with the complete pricing changes: the other offers are
  processed all the same. Offer identifiers are unique, as in the store.
\<close>

theorem syncOffersPrices_absent_token:
  assumes wf: "distinct (map offer_id (offers s))"
    and x: "x \<in> set (offers s)" "offerStatus x = WaitingForPricing" "day x \<le> currentDay"
    and absent: "token \<in> set (offerTokens x)" "getCoinPriceForDay token (day x) = None"
  shows "offerRepository_findById (offer_id x)
           (offers (syncOffersPrices getCoinPriceForDay calculatePercentageChange currentDay s))
           = Some x \<and>
         (\<forall>y \<in> set (offers s).
            offerStatus y = WaitingForPricing \<and> day y \<le> currentDay \<and>
            allPriced getCoinPriceForDay y \<longrightarrow>
            offerRepository_findById (offer_id y)
              (offers (syncOffersPrices getCoinPriceForDay calculatePercentageChange currentDay s))
            = Some (y\<lparr>offerStatus := WaitingForCompletion,
                      pricingChanges :=
                        computedChanges getCoinPriceForDay calculatePercentageChange y\<rparr>))"
proof -
  let ?batch = "findByOfferStatus WaitingForPricing (Some currentDay) (offers s)"
  let ?s' = "syncOffersPrices getCoinPriceForDay calculatePercentageChange currentDay s"
  have xb: "x \<in> set ?batch"
    using x by (simp add: findByOfferStatus_def)
  then have run: "?s' =
      syncOffersPrices_offers getCoinPriceForDay calculatePercentageChange ?batch s"
    by (auto simp: syncOffersPrices_def Let_def)
  have db: "distinct (map offer_id ?batch)"
    using wf by (simp add: findByOfferStatus_def distinct_map_filter)
  have sub: "set ?batch \<subseteq> set (offers s)"
    by (auto simp: findByOfferStatus_def)
  have ids: "distinct (map offer_id (offers ?s'))"
    using wf by (simp add: run sync_offers_ids)
  have notall: "\<not> allPriced getCoinPriceForDay x"
    using absent by (auto simp: allPriced_def list_all_iff)
  have "x \<in> set (offers ?s')"
    unfolding run
  proof (rule sync_offers_absent_kept [OF notall x(1)])
    fix z assume "z \<in> set ?batch" "offer_id z = offer_id x"
    with sub x(1) wf show "z = x"
      by (meson distinct_map inj_onD subsetD)
  qed
  with ids findById_distinct [of "offers ?s'" x]
  have first: "offerRepository_findById (offer_id x) (offers ?s') = Some x" by simp
  have second: "offerRepository_findById (offer_id y) (offers ?s')
      = Some (y\<lparr>offerStatus := WaitingForCompletion,
                pricingChanges := computedChanges getCoinPriceForDay calculatePercentageChange y\<rparr>)"
    if y: "y \<in> set (offers s)" "offerStatus y = WaitingForPricing" "day y \<le> currentDay"
      "allPriced getCoinPriceForDay y" for y
  proof -
    have "y \<in> set ?batch" using y by (simp add: findByOfferStatus_def)
    from sync_offers_hit [OF db wf this y(1) y(4), of calculatePercentageChange]
    have "y\<lparr>offerStatus := WaitingForCompletion,
            pricingChanges := computedChanges getCoinPriceForDay calculatePercentageChange y\<rparr>
            \<in> set (offers ?s')"
      by (simp add: run)
    from findById_distinct [OF ids this] show ?thesis by simp
  qed
  from first second show ?thesis by blast
qed

theorem syncOffersPrices_absent_token_witness:
  "distinct (map offer_id (offers demo_pricing_state)) \<and>
   demo_unpriced_offer \<in> set (offers demo_pricing_state) \<and>
   offerStatus demo_unpriced_offer = WaitingForPricing \<and> day demo_unpriced_offer \<le> 12 \<and>
   ''ETH'' \<in> set (offerTokens demo_unpriced_offer) \<and>
   demo_gateway ''ETH'' (day demo_unpriced_offer) = None \<and>
   allPriced demo_gateway demo_priced_offer \<and>
   offerRepository_findById ''o1''
     (offers (syncOffersPrices demo_gateway demo_change 12 demo_pricing_state))
     = Some demo_unpriced_offer \<and>
   offerRepository_findById ''o2''
     (offers (syncOffersPrices demo_gateway demo_change 12 demo_pricing_state))
     = Some (demo_priced_offer\<lparr>offerStatus := WaitingForCompletion,
               pricingChanges := computedChanges demo_gateway demo_change demo_priced_offer\<rparr>) \<and>
   computedChanges demo_gateway demo_change demo_priced_offer ''SOL'' = Some 10"
proof -
  have h1: "distinct (map offer_id (offers demo_pricing_state))" by simp
  have h2: "demo_unpriced_offer \<in> set (offers demo_pricing_state)" by simp
  have h3: "offerStatus demo_unpriced_offer = WaitingForPricing" by simp
  have h4: "day demo_unpriced_offer \<le> 12" by simp
  have h5: "''ETH'' \<in> set (offerTokens demo_unpriced_offer)" by (simp add: offerTokens_def)
  have h6: "demo_gateway ''ETH'' (day demo_unpriced_offer) = None" by simp
  have h7: "allPriced demo_gateway demo_priced_offer"
    by (simp add: allPriced_def offerTokens_def)
  have h8: "computedChanges demo_gateway demo_change demo_priced_offer ''SOL'' = Some 10"
    by (simp add: computedChanges_def offerTokens_def)
  note main = syncOffersPrices_absent_token [where s = demo_pricing_state
      and x = demo_unpriced_offer and currentDay = 12 and token = "''ETH''"
      and getCoinPriceForDay = demo_gateway and calculatePercentageChange = demo_change]
  have "offerRepository_findById (offer_id demo_unpriced_offer)
           (offers (syncOffersPrices demo_gateway demo_change 12 demo_pricing_state))
           = Some demo_unpriced_offer \<and>
         (\<forall>y \<in> set (offers demo_pricing_state).
            offerStatus y = WaitingForPricing \<and> day y \<le> 12 \<and>
            allPriced demo_gateway y \<longrightarrow>
            offerRepository_findById (offer_id y)
              (offers (syncOffersPrices demo_gateway demo_change 12 demo_pricing_state))
            = Some (y\<lparr>offerStatus := WaitingForCompletion,
                      pricingChanges := computedChanges demo_gateway demo_change y\<rparr>))"
    by (rule main) (use h5 in simp_all)
  then show ?thesis using h5 h7 h8 by simp
qed

text \<open>
  C8. When the gateway returns nothing for a token, the per-token handler sets the skip
  flag and then fails reading the prices: it returns the \<open>TypeError\<close>. The offer's
  iteration therefore ends in the \<open>catch\<close> of the offer (an error line, then the
  ``prices updated'' line) and not in the \<open>continue\<close> of the skip flag, which would
  leave the log as it is.
\<close>

theorem syncOffersPrices_token_raises_on_absent:
  assumes "token \<in> set (offerTokens x)" "getCoinPriceForDay token (day x) = None"
  shows "syncOffersPrices_token getCoinPriceForDay calculatePercentageChange (day x) token l
           = (Inl TypeError, l\<lparr>shouldSkipOffer := True\<rparr>) \<and>
         syncOffersPrices_offer getCoinPriceForDay calculatePercentageChange x s
           = s\<lparr>logs := logs s @ [LogPricesUpdateFailed TypeError, LogPricesUpdated (offer_id x)]\<rparr>"
proof -
  have "\<not> allPriced getCoinPriceForDay x"
    using assms by (auto simp: allPriced_def list_all_iff)
  then show ?thesis
    using assms(2) by (simp add: offer_absent token_absent)
qed

theorem syncOffersPrices_token_raises_on_absent_witness:
  "''ETH'' \<in> set (offerTokens demo_unpriced_offer) \<and>
   demo_gateway ''ETH'' (day demo_unpriced_offer) = None \<and>
   syncOffersPrices_token demo_gateway demo_change 11 ''ETH''
       \<lparr>l_pricingChanges = Map.empty, shouldSkipOffer = False\<rparr>
     = (Inl TypeError, \<lparr>l_pricingChanges = Map.empty, shouldSkipOffer = True\<rparr>) \<and>
   syncOffersPrices_offer demo_gateway demo_change demo_unpriced_offer demo_pricing_state
     = demo_pricing_state\<lparr>logs := [LogPricesUpdateFailed TypeError, LogPricesUpdated ''o1'']\<rparr>"
proof -
  have h1: "''ETH'' \<in> set (offerTokens demo_unpriced_offer)" by (simp add: offerTokens_def)
  have h2: "demo_gateway ''ETH'' (day demo_unpriced_offer) = None" by simp
  have "syncOffersPrices_token demo_gateway demo_change (day demo_unpriced_offer) ''ETH''
           \<lparr>l_pricingChanges = Map.empty, shouldSkipOffer = False\<rparr>
           = (Inl TypeError,
              \<lparr>l_pricingChanges = Map.empty, shouldSkipOffer = False\<rparr>\<lparr>shouldSkipOffer := True\<rparr>) \<and>
         syncOffersPrices_offer demo_gateway demo_change demo_unpriced_offer demo_pricing_state
           = demo_pricing_state\<lparr>logs := logs demo_pricing_state @
               [LogPricesUpdateFailed TypeError, LogPricesUpdated (offer_id demo_unpriced_offer)]\<rparr>"
    by (rule syncOffersPrices_token_raises_on_absent [where getCoinPriceForDay = demo_gateway])
       (use h1 in simp_all)
  then show ?thesis using h1 by simp
qed

section \<open>Generation\<close>

lemma findLatest_Max:
  "os \<noteq> [] \<Longrightarrow> \<exists>m. findLatest os = Some m \<and> m \<in> set os \<and> day m = Max (day ` set os)"
proof (induction os)
  case Nil
  then show ?case by simp
next
  case (Cons a os)
  show ?case
  proof (cases "os = []")
    case True
    then show ?thesis by simp
  next
    case False
    with Cons.IH obtain m where m: "findLatest os = Some m" "m \<in> set os"
      "day m = Max (day ` set os)" by blast
    have "Max (day ` set (a # os)) = max (day a) (Max (day ` set os))"
      using False by simp
    with m show ?thesis by (auto simp: max_def)
  qed
qed

lemma generateOffers_loop_upto:
  "generateOffers_loop gd ss d lastDay acc = acc @ map (generateOffers_offer gd ss) [d..lastDay]"
proof (induction gd ss d lastDay acc rule: generateOffers_loop.induct)
  case (1 gd ss d lastDay acc)
  show ?case
  proof (cases "d \<le> lastDay")
    case True
    with "1.IH" show ?thesis
      by (subst generateOffers_loop.simps) (simp add: upto_rec1 [of d lastDay])
  next
    case False
    then show ?thesis
      by (subst generateOffers_loop.simps) simp
  qed
qed

lemma generateOffers_batch:
  "generateOffers gd ss currentDay os =
     (let nextOfferDay = (case findLatest os of Some x \<Rightarrow> day x + 1 | None \<Rightarrow> currentDay)
      in if nextOfferDay - currentDay > 3 then None
         else Some (map (generateOffers_offer gd ss) [nextOfferDay..nextOfferDay + 7]))"
  by (simp only: generateOffers_def Let_def MAX_DAYS_THRESHOLD_def OFFERS_TO_GENERATE_def
        generateOffers_loop_upto append_Nil)

lemma generateOffers_offer_day:
  "c_day (generateOffers_offer gd ss d) = d"
  by (simp add: generateOffers_offer_def Let_def)

lemma upt_six: "[0..<6] = [0, 1, 2, 3, 4, 5::nat]"
  by code_simp

lemma generateOffers_offer_pairs:
  assumes "length (ss d) = 12"
  shows "length (c_tokenOffers (generateOffers_offer gd ss d)) = 6 \<and>
         concat (map (\<lambda>t. [c_firstToken t, c_secondToken t])
                   (c_tokenOffers (generateOffers_offer gd ss d))) = map Some (ss d)"
proof -
  from assms obtain x0 x1 x2 x3 x4 x5 x6 x7 x8 x9 x10 x11 where
    "ss d = [x0, x1, x2, x3, x4, x5, x6, x7, x8, x9, x10, x11]"
    by (auto simp: eval_nat_numeral length_Suc_conv)
  then show ?thesis
    by (simp add: generateOffers_offer_def Let_def MAX_TOKEN_OFFERS_def arrayAt_def upt_six)
qed

text \<open>
  C5. When offers exist, \<open>D\<close> is the greatest day among them and \<open>(D + 1) - C > 3\<close>
  for the current day \<open>C\<close>, the run returns before \<open>createMany\<close>: nothing is written.
\<close>

theorem generateOffers_day_gap_guard:
  assumes "os \<noteq> []" and "(Max (day ` set os) + 1) - currentDay > 3"
  shows "generateOffers getDateFromUtcDay sampleSize currentDay os = None"
proof -
  from findLatest_Max [OF assms(1)] obtain m where
    "findLatest os = Some m" "day m = Max (day ` set os)" by blast
  with assms(2) show ?thesis
    by (simp add: generateOffers_def MAX_DAYS_THRESHOLD_def)
qed

theorem generateOffers_day_gap_guard_witness:
  "[\<lparr>offer_id = ''o1'', day = 20, tokenOffers = [], offerStatus = WaitingForPricing,
      pricingChanges = (Map.empty :: string \<rightharpoonup> int)\<rparr>] \<noteq> [] \<and>
   (Max (day ` set [\<lparr>offer_id = ''o1'', day = 20, tokenOffers = [],
       offerStatus = WaitingForPricing, pricingChanges = (Map.empty :: string \<rightharpoonup> int)\<rparr>]) + 1)
     - 16 > 3 \<and>
   generateOffers (\<lambda>d. d) (\<lambda>d. []) 16
     [\<lparr>offer_id = ''o1'', day = 20, tokenOffers = [], offerStatus = WaitingForPricing,
       pricingChanges = (Map.empty :: string \<rightharpoonup> int)\<rparr>] = None"
  using generateOffers_day_gap_guard [of
     "[\<lparr>offer_id = ''o1'', day = 20, tokenOffers = [], offerStatus = WaitingForPricing,
       pricingChanges = (Map.empty :: string \<rightharpoonup> int)\<rparr>]" 16 "\<lambda>d. d" "\<lambda>d. []"]
  by simp

text \<open>
  C6. The guard not firing (here: no offer exists yet), the batch handed to
  \<open>createMany\<close> has the days \<open>currentDay\<close> to \<open>currentDay + 7\<close>: the loop bound
  \<open>day <= nextOfferDay + OFFERS_TO_GENERATE\<close> is inclusive, so eight offers are
  created where \<open>OFFERS_TO_GENERATE = 7\<close> names seven.
\<close>

theorem generateOffers_batch_has_eight_offers:
  "\<exists>batch. generateOffers getDateFromUtcDay sampleSize currentDay [] = Some batch \<and>
     length batch = 8 \<and>
     map c_day batch = [currentDay, currentDay + 1, currentDay + 2, currentDay + 3,
                        currentDay + 4, currentDay + 5, currentDay + 6, currentDay + 7]"
  by (simp add: generateOffers_def MAX_DAYS_THRESHOLD_def OFFERS_TO_GENERATE_def
        generateOffers_loop_upto upto_rec1 generateOffers_offer_day add.commute)

section \<open>Awarding: the loop over the portfolios of an offer\<close>















section \<open>Awarding: a run\<close>

lemma waiting_iff:
  "x \<in> set (listOffersWaitingForCompletion os) \<longleftrightarrow> x \<in> set os \<and> offerStatus x = WaitingForCompletion"
  by (auto simp: listOffersWaitingForCompletion_def findByOfferStatus_def)


lemma find_pending:
  assumes "list_all (\<lambda>y. ObjectId (offer_id y) = Some (offer_id y)) waiting"
  shows "portfolioRepository_find ObjectId
           \<lparr>f_userId = None, f_offerIds = Some (map offer_id waiting), f_isAwarded = Some False\<rparr> ps
         = Inr (filter (\<lambda>p. offer p \<in> offer_id ` set waiting \<and> \<not> isAwarded p) ps)"
proof -
  from assms have "those (map ObjectId (map offer_id waiting)) = Some (map offer_id waiting)"
    by (induction waiting) simp_all
  then show ?thesis
    by (simp add: portfolioRepository_find_def)
qed


lemma awardPortfolios_run:
  assumes "list_all (\<lambda>y. ObjectId (offer_id y) = Some (offer_id y)) (offers s)"
  shows "awardPortfolios ObjectId gp s =
     Inr (awardPortfolios_offers ObjectId gp
            (groupBy_offer (filter (\<lambda>p. offer p \<in> offer_id ` set (listOffersWaitingForCompletion (offers s))
                                        \<and> \<not> isAwarded p) (portfolios s)))
            (listOffersWaitingForCompletion (offers s)) s)"
proof -
  from assms have "list_all (\<lambda>y. ObjectId (offer_id y) = Some (offer_id y))
      (listOffersWaitingForCompletion (offers s))"
    by (simp add: list_all_iff waiting_iff)
  then show ?thesis
    by (simp add: awardPortfolios_def Let_def find_pending)
qed

section \<open>Awarding with the entity of the source\<close>

text \<open>
  With the getter of the source every offer's \<open>try\<close> block raises at its first
  statement: a run appends one failure line per waiting offer and changes nothing else.
\<close>

lemma awardPortfolios_offers_entity:
  "awardPortfolios_offers ObjectId entity_getPriceChanges grouped xs t =
     t\<lparr>logs := logs t @ map (\<lambda>x. LogAwardFailed (offer_id x) TypeError) xs\<rparr>"
  by (induction xs arbitrary: t)
     (simp_all add: awardPortfolios_offer_def entity_getPriceChanges_def)

lemma awardPortfolios_entity:
  assumes "list_all (\<lambda>y. ObjectId (offer_id y) = Some (offer_id y)) (offers s)"
  shows "awardPortfolios ObjectId entity_getPriceChanges s =
     Inr (s\<lparr>logs := logs s @ map (\<lambda>x. LogAwardFailed (offer_id x) TypeError)
                                (listOffersWaitingForCompletion (offers s))\<rparr>)"
  by (simp add: awardPortfolios_run [OF assms] awardPortfolios_offers_entity)

section \<open>Example data for awarding\<close>

text \<open>
  One offer waiting for completion with the percentages BTC: 5 and ETH: -3, two users
  with a balance of 1000, and three stores: one portfolio that selects BTC; a portfolio
  with the unpriced token DOGE before it; no portfolio at all.
  \<open>document_getPriceChanges\<close> is a getter as an entity with the method would have it:
  it returns the \<open>pricingChanges\<close> of the document.
\<close>

abbreviation demo_award_offer :: "int PortfolioOffer" where
  "demo_award_offer \<equiv>
     \<lparr>offer_id = demo_offer_id, day = 10,
      tokenOffers = [\<lparr>firstToken = ''BTC'', secondToken = ''ETH''\<rparr>],
      offerStatus = WaitingForCompletion,
      pricingChanges = [''BTC'' \<mapsto> 5, ''ETH'' \<mapsto> - 3]\<rparr>"

abbreviation demo_users :: "string \<rightharpoonup> int User" where
  "demo_users \<equiv>
     [demo_ann_id \<mapsto> \<lparr>fid = 1, balance = 1000, userName = ''ann'', imageUrl = ''''\<rparr>,
      demo_bob_id \<mapsto> \<lparr>fid = 2, balance = 1000, userName = ''bob'', imageUrl = ''''\<rparr>]"

abbreviation demo_doge_portfolio :: "int Portfolio" where
  "demo_doge_portfolio \<equiv>
     \<lparr>portfolio_id = demo_first_id, user = demo_ann_id, selectedTokens = [''DOGE''],
      offer = demo_offer_id, isAwarded = False, earnedPoints = None\<rparr>"

abbreviation demo_btc_portfolio :: "int Portfolio" where
  "demo_btc_portfolio \<equiv>
     \<lparr>portfolio_id = demo_second_id, user = demo_bob_id, selectedTokens = [''BTC''],
      offer = demo_offer_id, isAwarded = False, earnedPoints = None\<rparr>"

abbreviation demo_award_state :: "int state" where
  "demo_award_state \<equiv>
     \<lparr>offers = [demo_award_offer], portfolios = [demo_btc_portfolio],
      users = demo_users, logs = []\<rparr>"

abbreviation demo_blocked_state :: "int state" where
  "demo_blocked_state \<equiv>
     \<lparr>offers = [demo_award_offer], portfolios = [demo_doge_portfolio, demo_btc_portfolio],
      users = demo_users, logs = []\<rparr>"

abbreviation demo_idle_state :: "int state" where
  "demo_idle_state \<equiv>
     \<lparr>offers = [demo_award_offer], portfolios = [], users = demo_users, logs = []\<rparr>"

abbreviation (input) document_getPriceChanges :: "int PortfolioOffer \<Rightarrow> error + (string \<rightharpoonup> int)" where
  "document_getPriceChanges \<equiv> (\<lambda>x. Inr (pricingChanges x))"

lemmas award_eval =
  awardPortfolios_def listOffersWaitingForCompletion_def findByOfferStatus_def
  portfolioRepository_find_def groupBy_offer_def awardPortfolios_offer_def
  entity_getPriceChanges_def hexObjectId_demo pendingOf_def tokensPriced_def Let_def

section \<open>Awarding: the properties of a run\<close>

text \<open>
  C9. The offer waits for completion and has no non-awarded portfolio. The entity of the
  source has no \<open>getPriceChanges\<close>, so the first statement of the \<open>try\<close> block
  raises: the run writes the failure line of the offer and nothing else, and the offer is
  still waiting for completion. The empty group is never read and
  \<open>markOfferCompleted\<close> is never called.
\<close>

theorem awardPortfolios_empty_group_not_completed:
  "demo_award_offer \<in> set (listOffersWaitingForCompletion (offers demo_idle_state)) \<and>
   pendingOf demo_idle_state demo_award_offer = [] \<and>
   awardPortfolios hexObjectId entity_getPriceChanges demo_idle_state
     = Inr (demo_idle_state\<lparr>logs := [LogAwardFailed demo_offer_id TypeError]\<rparr>) \<and>
   listOffersWaitingForCompletion
       (offers (demo_idle_state\<lparr>logs := [LogAwardFailed demo_offer_id TypeError]\<rparr>))
     = [demo_award_offer]"
  by (simp add: award_eval)

text \<open>
  C2. The offer waits for completion and its one non-awarded portfolio selects BTC, which
  has a percentage. With the entity of the source the call of \<open>getPriceChanges\<close>
  raises before the loop over the portfolios: the run writes the failure line of the offer
  and nothing else. The portfolio keeps \<open>isAwarded = False\<close> and no
  \<open>earnedPoints\<close>, and no balance changes.
\<close>

theorem awardPortfolios_awards_nothing_on_source:
  "demo_award_offer \<in> set (listOffersWaitingForCompletion (offers demo_award_state)) \<and>
   pendingOf demo_award_state demo_award_offer = [demo_btc_portfolio] \<and>
   tokensPriced (pricingChanges demo_award_offer) demo_btc_portfolio \<and>
   awardPortfolios hexObjectId entity_getPriceChanges demo_award_state
     = Inr (demo_award_state\<lparr>logs := [LogAwardFailed demo_offer_id TypeError]\<rparr>)"
  by (simp add: award_eval)




section \<open>Awarding with an entity that has the getter\<close>

text \<open>
  What the same code does on the three example stores when the entity has the method:
  the BTC portfolio is awarded 5 points, its user credited and the offer completed; the
  DOGE portfolio raises and blocks the BTC portfolio after it; the offer without
  portfolios is completed.
\<close>

lemmas award_eval_getter =
  award_eval useTransaction_def awardPortfolios_transaction_def userService_update_def
  portfolioRepository_updateOneById_def markOfferCompleted_def

lemma awardPortfolios_with_getter_awards:
  "awardPortfolios hexObjectId document_getPriceChanges demo_award_state =
     Inr \<lparr>offers = [demo_award_offer\<lparr>offerStatus := Completed\<rparr>],
          portfolios = [demo_btc_portfolio\<lparr>isAwarded := True, earnedPoints := Some 5\<rparr>],
          users = [demo_ann_id \<mapsto> \<lparr>fid = 1, balance = 1000, userName = ''ann'', imageUrl = ''''\<rparr>,
                   demo_bob_id \<mapsto> \<lparr>fid = 2, balance = 1005, userName = ''bob'', imageUrl = ''''\<rparr>],
          logs = [LogOfferCompleted demo_offer_id 1]\<rparr>"
  by (simp add: award_eval_getter)

lemma awardPortfolios_with_getter_blocked:
  "awardPortfolios hexObjectId document_getPriceChanges demo_blocked_state =
     Inr (demo_blocked_state\<lparr>logs :=
            [LogAwardFailed demo_offer_id (Error ''Percentage change not found for token.'')]\<rparr>)"
  by (simp add: award_eval_getter)

lemma awardPortfolios_with_getter_empty_group:
  "awardPortfolios hexObjectId document_getPriceChanges demo_idle_state =
     Inr (demo_idle_state\<lparr>offers := [demo_award_offer\<lparr>offerStatus := Completed\<rparr>],
                          logs := [LogOfferCompleted demo_offer_id 0]\<rparr>)"
  by (simp add: award_eval_getter)

end
